theory Spec2Isabelle
  imports Main "HOL-Library.Char_ord" "HOL-Library.List_Lexorder"
begin

section \<open>The rustdoc sidebar index of module \<open>opendal::raw\<close>\<close>

text \<open>
  The repository's only source file, \<^verbatim>\<open>docs/rust/opendal/raw/sidebar-items.js\<close>, is one
  JavaScript statement: it assigns an object literal to the property
  \<^verbatim>\<open>SIDEBAR_ITEMS\<close> of \<^verbatim>\<open>window\<close>. The literal has one key per item category and,
  under each key, an array of two-element arrays \<^verbatim>\<open>[name, description]\<close>.

  JavaScript values are untyped, so the literal is embedded in a datatype of values:
  strings, arrays, and objects as association lists in the order the literal writes
  its keys. A string is the list of the bytes the file holds for it (the file is
  UTF-8; the three descriptions with a right single quotation mark, U+2019, hold its
  three bytes E2 80 99). All item names are ASCII, where byte order and JavaScript's
  order on UTF-16 code units agree.
\<close>

datatype js = Str string | Arr "js list" | Obj "(string \<times> js) list"

definition SIDEBAR_ITEMS :: js where
  "SIDEBAR_ITEMS = Obj [
   (''constant'', Arr [
      Arr [Str ''VERSION'',
           Str ''VERSION is the compiled version of OpenDAL.'']]),
   (''enum'', Arr [
      Arr [Str ''AccessorCapability'',
           Str (''AccessorCapability describes accessor'' @ [CHR 0xE2, CHR 0x80, CHR 0x99] @ ''s advanced capability.'')],
      Arr [Str ''AccessorHint'',
           Str (''AccessorHint describes accessor'' @ [CHR 0xE2, CHR 0x80, CHR 0x99] @ ''s hint.'')],
      Arr [Str ''AsyncBody'',
           Str ''Body used in async HTTP requests.''],
      Arr [Str ''BatchedReply'',
           Str ''Batch results of `batch` operations.''],
      Arr [Str ''Operation'',
           Str ''Operation is the name for APIs in `Accessor`.'']]),
   (''fn'', Arr [
      Arr [Str ''build_abs_path'',
           Str ''build_abs_path will build an absolute path with root.''],
      Arr [Str ''build_header_value'',
           Str ''Build header value from given string.''],
      Arr [Str ''build_rel_path'',
           Str ''build_rel_path will build a relative path towards root.''],
      Arr [Str ''build_rooted_abs_path'',
           Str ''build_rooted_abs_path will build an absolute path with root.''],
      Arr [Str ''format_authorization_by_basic'',
           Str ''format authorization header by basic auth.''],
      Arr [Str ''format_authorization_by_bearer'',
           Str ''format authorization header by bearer token.''],
      Arr [Str ''format_content_md5'',
           Str ''format content md5 header by given input.''],
      Arr [Str ''get_basename'',
           Str ''Get basename from path.''],
      Arr [Str ''get_parent'',
           Str ''Get parent from path.''],
      Arr [Str ''new_json_deserialize_error'',
           Str ''Parse json deserialize error into opendal::Error.''],
      Arr [Str ''new_json_serialize_error'',
           Str ''Parse json serialize error into opendal::Error.''],
      Arr [Str ''new_request_build_error'',
           Str ''Create a new error happened during building request.''],
      Arr [Str ''new_request_credential_error'',
           Str ''Create a new error happened during signing request.''],
      Arr [Str ''new_request_sign_error'',
           Str ''Create a new error happened during signing request.''],
      Arr [Str ''new_xml_deserialize_error'',
           Str ''Parse xml deserialize error into opendal::Error.''],
      Arr [Str ''normalize_path'',
           Str ''Make sure all operation are constructed by normalized path:''],
      Arr [Str ''normalize_root'',
           Str ''Make sure root is normalized to style like `/abc/def/`.''],
      Arr [Str ''parse_content_disposition'',
           Str ''Parse Content-Disposition for header map''],
      Arr [Str ''parse_content_length'',
           Str ''Parse content length from header map.''],
      Arr [Str ''parse_content_md5'',
           Str ''Parse content md5 from header map.''],
      Arr [Str ''parse_content_range'',
           Str ''Parse content range from header map.''],
      Arr [Str ''parse_content_type'',
           Str ''Parse content type from header map.''],
      Arr [Str ''parse_datetime_from_from_timestamp_millis'',
           Str ''parse datetime from given timestamp_millis''],
      Arr [Str ''parse_datetime_from_rfc2822'',
           Str ''Parse dateimt from rfc2822.''],
      Arr [Str ''parse_datetime_from_rfc3339'',
           Str ''Parse dateimt from rfc3339.''],
      Arr [Str ''parse_error_response'',
           Str ''parse_error_response will parse response into `ErrorResponse`.''],
      Arr [Str ''parse_etag'',
           Str ''Parse etag from header map.''],
      Arr [Str ''parse_into_metadata'',
           Str ''parse_into_metadata will parse standards http headers into Metadata.''],
      Arr [Str ''parse_last_modified'',
           Str ''Parse last modified from header map.''],
      Arr [Str ''parse_location'',
           Str ''Parse redirect location from header map''],
      Arr [Str ''percent_encode_path'',
           Str ''percent_encode_path will do percent encoding for http encode path.''],
      Arr [Str ''validate_path'',
           Str ''Validate given path is match with given EntryMode.'']]),
   (''mod'', Arr [
      Arr [Str ''adapters'',
           Str ''Providing adapters and its implementations.''],
      Arr [Str ''oio'',
           Str (''`oio` provides OpenDAL'' @ [CHR 0xE2, CHR 0x80, CHR 0x99] @ ''s raw traits and types that opendal returns as output.'')]]),
   (''struct'', Arr [
      Arr [Str ''AccessorInfo'',
           Str ''Metadata for accessor, users can use this metadata to get information of underlying backend.''],
      Arr [Str ''BytesContentRange'',
           Str ''BytesContentRange is the content range of bytes.''],
      Arr [Str ''BytesRange'',
           Str ''BytesRange(offset, size) carries a range of content.''],
      Arr [Str ''ErrorResponse'',
           Str ''ErrorResponse carries HTTP status code, headers and body.''],
      Arr [Str ''HttpClient'',
           Str ''HttpClient that used across opendal.''],
      Arr [Str ''IncomingAsyncBody'',
           Str ''IncomingAsyncBody carries the content returned by remote servers.''],
      Arr [Str ''PresignedRequest'',
           Str ''PresignedRequest is a presigned request return by `presign`.''],
      Arr [Str ''RpBatch'',
           Str ''Reply for `batch` operation.''],
      Arr [Str ''RpCopy'',
           Str ''Reply for `copy` operation.''],
      Arr [Str ''RpCreate'',
           Str ''Reply for `create` operation''],
      Arr [Str ''RpDelete'',
           Str ''Reply for `delete` operation''],
      Arr [Str ''RpList'',
           Str ''Reply for `list` operation.''],
      Arr [Str ''RpPresign'',
           Str ''Reply for `presign` operation.''],
      Arr [Str ''RpRead'',
           Str ''Reply for `read` operation.''],
      Arr [Str ''RpRename'',
           Str ''Reply for `rename` operation.''],
      Arr [Str ''RpScan'',
           Str ''Reply for `scan` operation.''],
      Arr [Str ''RpStat'',
           Str ''Reply for `stat` operation.''],
      Arr [Str ''RpWrite'',
           Str ''Reply for `write` operation.'']]),
   (''trait'', Arr [
      Arr [Str ''Accessor'',
           Str ''Underlying trait of all backends for implementors.''],
      Arr [Str ''Layer'',
           Str ''Layer is used to intercept the operations on the underlying storage.''],
      Arr [Str ''LayeredAccessor'',
           Str ''LayeredAccessor is layered accessor that forward all not implemented method to inner.'']]),
   (''type'', Arr [
      Arr [Str ''FusedAccessor'',
           Str ''FusedAccessor is the type erased accessor with `Box<dyn Read>`.'']])]"


subsection \<open>Reading the literal\<close>

text \<open>Property access \<^verbatim>\<open>o[k]\<close>: \<^verbatim>\<open>undefined\<close> (here \<open>None\<close>) when \<open>o\<close> is not an
  object or has no such key. The literal writes no key twice, so the first match is
  the property.\<close>

fun property :: "js \<Rightarrow> string \<Rightarrow> js option" where
  "property (Obj kvs) k = map_of kvs k"
| "property _ k = None"

text \<open>\<^verbatim>\<open>Object.keys(o)\<close>, in the order of the literal.\<close>

fun keys :: "js \<Rightarrow> string list" where
  "keys (Obj kvs) = map fst kvs"
| "keys _ = []"

text \<open>The elements of an array value; a value that is no array has none.\<close>

fun elements :: "js \<Rightarrow> js list" where
  "elements (Arr vs) = vs"
| "elements _ = []"

text \<open>An entry of the index is a two-element array of strings, name first.\<close>

fun entry_name :: "js \<Rightarrow> string option" where
  "entry_name (Arr [Str n, Str d]) = Some n"
| "entry_name _ = None"

text \<open>The entries listed under a category, and their names in the order listed.\<close>

definition entries :: "string \<Rightarrow> js list" where
  "entries c = (case property SIDEBAR_ITEMS c of Some v \<Rightarrow> elements v | None \<Rightarrow> [])"

definition names :: "string \<Rightarrow> string list" where
  "names c = List.map_filter entry_name (entries c)"

text \<open>A well-formed entry: a pair of strings whose name is not empty.\<close>

definition well_formed_entry :: "js \<Rightarrow> bool" where
  "well_formed_entry e = (case entry_name e of Some n \<Rightarrow> n \<noteq> [] | None \<Rightarrow> False)"

text \<open>The description listed for a name of a category, if the category lists the name.\<close>

fun entry_pair :: "js \<Rightarrow> (string \<times> string) option" where
  "entry_pair (Arr [Str n, Str d]) = Some (n, d)"
| "entry_pair _ = None"

definition description :: "string \<Rightarrow> string \<Rightarrow> string option" where
  "description c n = map_of (List.map_filter entry_pair (entries c)) n"

text \<open>
  The index describes a reply struct by the operation it answers, written between
  backquotes: \<^verbatim>\<open>["RpRead", "Reply for `read` operation."]\<close>. The operation a struct is
  described as the reply for is the text between the first two backquotes (byte 0x60)
  of its description.
\<close>

definition backquoted :: "string \<Rightarrow> string" where
  "backquoted d =
     takeWhile (\<lambda>c. c \<noteq> CHR 0x60) (drop 1 (dropWhile (\<lambda>c. c \<noteq> CHR 0x60) d))"

definition replied_operation :: "string \<Rightarrow> string option" where
  "replied_operation n = map_option backquoted (description ''struct'' n)"

subsection \<open>Evaluating the script\<close>

text \<open>
  The global object \<^verbatim>\<open>window\<close> is a store from property names to values. The script is
  the single assignment \<^verbatim>\<open>window.SIDEBAR_ITEMS = {...};\<close> to a plain data property:
  it reads nothing, and it writes the literal under the one name
  \<^verbatim>\<open>SIDEBAR_ITEMS\<close>. Values are compared by structure.
\<close>

type_synonym window = "string \<rightharpoonup> js"

definition sidebar_items_js :: "window \<Rightarrow> window" where
  "sidebar_items_js w = w(''SIDEBAR_ITEMS'' \<mapsto> SIDEBAR_ITEMS)"

subsection \<open>Operation tags and reply structs\<close>

text \<open>
  Modelled from the spec: the variants of the enum \<^verbatim>\<open>Operation\<close>. The index lists the
  enum by name only (\<^verbatim>\<open>["Operation", "Operation is the name for APIs in `Accessor`."]\<close>);
  its declaration is not among the sources. Section 3 of the spec gives the tags:
  Read, Write, Stat, Delete, List, Scan, Copy, Rename, Presign, Batch.
\<close>

datatype Operation = Read | Write | Stat | Delete | List | Scan | Copy | Rename | Presign | Batch

fun tag_name :: "Operation \<Rightarrow> string" where
  "tag_name Read = ''Read''"
| "tag_name Write = ''Write''"
| "tag_name Stat = ''Stat''"
| "tag_name Delete = ''Delete''"
| "tag_name List = ''List''"
| "tag_name Scan = ''Scan''"
| "tag_name Copy = ''Copy''"
| "tag_name Rename = ''Rename''"
| "tag_name Presign = ''Presign''"
| "tag_name Batch = ''Batch''"

text \<open>The reply struct named for an operation: \<^verbatim>\<open>Rp\<close> followed by the tag.\<close>

definition reply_type :: "Operation \<Rightarrow> string" where
  "reply_type op = ''Rp'' @ tag_name op"

text \<open>The reply structs the module declares: the names of the \<^verbatim>\<open>struct\<close> category
  that begin with \<^verbatim>\<open>Rp\<close>, in the order listed.\<close>

definition reply_structs :: "string list" where
  "reply_structs = filter (\<lambda>n. take 2 n = ''Rp'') (names ''struct'')"

text \<open>The descriptions name an operation as the Rust method is named, in lower case:
  ASCII letters \<^verbatim>\<open>A\<close> to \<^verbatim>\<open>Z\<close> are moved to \<^verbatim>\<open>a\<close> to \<^verbatim>\<open>z\<close>.\<close>

definition lowercase :: "string \<Rightarrow> string" where
  "lowercase =
     map (\<lambda>c. if CHR ''A'' \<le> c \<and> c \<le> CHR ''Z'' then char_of (of_char c + (32 :: nat)) else c)"

section \<open>The accessor and layer protocol\<close>

text \<open>
  The index names the traits \<^verbatim>\<open>Accessor\<close>, \<^verbatim>\<open>Layer\<close> and \<^verbatim>\<open>LayeredAccessor\<close>
  (\<^verbatim>\<open>"LayeredAccessor is layered accessor that forward all not implemented method to
  inner."\<close>), the enum \<^verbatim>\<open>AccessorCapability\<close> and the reply structs; their Rust
  declarations are not among the sources. Every definition of this section is written
  from the spec's description of the missing item, and says so.
\<close>

subsection \<open>Capability descriptors\<close>

text \<open>
  Modelled from the spec: the variant flags of the capability descriptor; the Rust enum
  \<^verbatim>\<open>AccessorCapability\<close> is missing from the sources. Section 3 names the variants:
  "read supports byte-range, write supports size hint, list supports pagination
  cursor".
\<close>

datatype Variant = ByteRange | SizeHint | PaginationCursor

text \<open>
  Modelled from the spec: what a capability descriptor declares about one operation
  (section 3; the struct \<^verbatim>\<open>AccessorInfo\<close> is missing from the sources): whether the
  operation can be executed at all, the variants of it that can, and the
  maximum-batch-size hint, which is declared with Batch. The descriptor's flag "presign
  supported" is the support declared for Presign.
\<close>

record Support =
  executable :: bool
  variants :: "Variant set"
  max_batch_size :: "nat option"

text \<open>
  Modelled from the spec: the capability descriptor (sections 3 and 4.2; missing from
  the sources as above). The merge policy speaks of the operations an accessor "itself
  implements", so the descriptor records a declared support for exactly those: a
  backend implements every operation it answers for, a layer implements the operations
  it overrides and is silent about the ones it only forwards.
\<close>

type_synonym Capability = "Operation \<rightharpoonup> Support"

text \<open>Modelled from the spec: \<^verbatim>\<open>supports(operation)\<close> of section 4.2, "true iff the
  accessor can execute that operation at all"; the Rust code is missing from the
  sources.\<close>

definition supports :: "Capability \<Rightarrow> Operation \<Rightarrow> bool" where
  "supports d op = (case d op of Some s \<Rightarrow> executable s | None \<Rightarrow> False)"

text \<open>Modelled from the spec: \<^verbatim>\<open>variant_supported(operation, variant)\<close> of section 4.2,
  the "finer-grained capability check"; the Rust code is missing from the sources.\<close>

definition variant_supported :: "Capability \<Rightarrow> Operation \<Rightarrow> Variant \<Rightarrow> bool" where
  "variant_supported d op v =
     (case d op of Some s \<Rightarrow> executable s \<and> v \<in> variants s | None \<Rightarrow> False)"

text \<open>
  Modelled from the spec: \<^verbatim>\<open>merge(outer, inner)\<close> of section 4.2; the Rust code is
  missing from the sources. "For any operation the layer itself implements, the layer's
  own declared support wins; for any operation the layer does not implement (pure
  forwarding), the inner accessor's support is inherited unchanged."
\<close>

definition merge :: "Capability \<Rightarrow> Capability \<Rightarrow> Capability" where
  "merge outer inner = (\<lambda>op. case outer op of Some s \<Rightarrow> Some s | None \<Rightarrow> inner op)"

text \<open>Modelled from the spec: the descriptor of a chain "querying the chain
  incrementally one layer at a time" (section 4.2); the Rust code is missing from the
  sources. The layers are listed outermost first, over the descriptor of the backend.\<close>

fun chain_capability :: "Capability list \<Rightarrow> Capability \<Rightarrow> Capability" where
  "chain_capability [] backend = backend"
| "chain_capability (layer # layers) backend = merge layer (chain_capability layers backend)"

text \<open>Modelled from the spec: the declarations of all layers of a chain merged at once,
  outermost first, before any backend is known (section 4.2, "capability queries
  against a deep chain"); the Rust code is missing from the sources. No layer at all
  declares nothing.\<close>

fun merge_all :: "Capability list \<Rightarrow> Capability" where
  "merge_all [] = Map.empty"
| "merge_all (layer # layers) = merge layer (merge_all layers)"

subsection \<open>Accessors, layers and the forwarding core\<close>

text \<open>
  Modelled from the spec: the request arguments and the replies of section 3; the Rust
  reply structs (\<^verbatim>\<open>RpRead\<close>, ..., \<^verbatim>\<open>RpBatch\<close>, \<^verbatim>\<open>BatchedReply\<close>) are missing from the
  sources. The forwarding core passes arguments, replies and errors on unchanged, so
  what they hold is a type parameter. Only Batch has structure: its request is "an
  ordered sequence of sub-operations", each an operation tag, a path and plain
  arguments, and its reply is "an ordered sequence of per-sub-operation outcomes
  (success reply or classified error)".
\<close>

type_synonym path = string

datatype 'a Args = Plain 'a | Subs "(Operation \<times> path \<times> 'a) list"

datatype ('r, 'e) Reply = Rp 'r | RpBatch "('e + ('r, 'e) Reply) list"

text \<open>
  Modelled from the spec: the accessor contract of section 4.3; the trait \<^verbatim>\<open>Accessor\<close>
  is missing from the sources. "For every Operation, an operation method:
  \<^verbatim>\<open>operation(path, request_args) -> Result<Reply, Error>\<close>". The side effects on the
  backend are made explicit: a method takes the state and returns the new one.
\<close>

type_synonym ('a, 'r, 'e, 's) operation_method =
  "path \<Rightarrow> 'a Args \<Rightarrow> 's \<Rightarrow> ('e + ('r, 'e) Reply) \<times> 's"

type_synonym ('a, 'r, 'e, 's) Accessor = "Operation \<Rightarrow> ('a, 'r, 'e, 's) operation_method"

text \<open>
  Modelled from the spec: a layer (sections 4.4 and 9); the trait \<^verbatim>\<open>Layer\<close> is missing
  from the sources. A layer is its override record, "a sparse mapping from Operation to
  replacement behavior". A replacement is given the inner accessor, since "forwarding
  is always an available primitive", and runs on the layer's private state paired with
  the state of what it wraps.
\<close>

type_synonym ('a, 'r, 'e, 'l, 's) Layer =
  "Operation \<rightharpoonup> (('a, 'r, 'e, 's) Accessor \<Rightarrow> ('a, 'r, 'e, 'l \<times> 's) operation_method)"

text \<open>Modelled from the spec: the base forwarding behaviour of section 4.5 (the trait
  \<^verbatim>\<open>LayeredAccessor\<close> is missing from the sources): it "calls the corresponding method
  on the inner accessor with the arguments unchanged and returns its reply unchanged".
  The layer's private state is not touched.\<close>

definition forward :: "('a, 'r, 'e, 's) operation_method \<Rightarrow> ('a, 'r, 'e, 'l \<times> 's) operation_method" where
  "forward m p args st =
     (case st of (l, s) \<Rightarrow> (case m p args s of (r, s') \<Rightarrow> (r, (l, s'))))"

text \<open>Modelled from the spec: the lookup of section 9 (the trait \<^verbatim>\<open>LayeredAccessor\<close> is
  missing from the sources): "the forwarding core looks up the override record first
  and falls back to calling the inner accessor's method when absent".\<close>

definition dispatch :: "('a, 'r, 'e, 'l, 's) Layer \<Rightarrow> ('a, 'r, 'e, 's) Accessor \<Rightarrow> ('a, 'r, 'e, 'l \<times> 's) Accessor" where
  "dispatch L inner op = (case L op of Some h \<Rightarrow> h inner | None \<Rightarrow> forward (inner op))"

text \<open>Modelled from the spec: executing one sub-operation of a batch "via the same
  accessor's own typed operation methods" (section 4.5; the Rust code is missing from
  the sources).\<close>

fun execute :: "('a, 'r, 'e, 't) Accessor \<Rightarrow> Operation \<times> path \<times> 'a \<Rightarrow> 't \<Rightarrow> ('e + ('r, 'e) Reply) \<times> 't" where
  "execute acc (op, p, a) t = acc op p (Plain a) t"

text \<open>
  Modelled from the spec: the algorithm for Batch of section 4.5 (the Rust code is
  missing from the sources): it "executes each sub-operation via the same accessor's
  own typed operation methods [...] and assembles the ordered-reply aggregate [...],
  continuing to execute subsequent sub-operations after an individual failure". An
  outcome is recorded whether it is a reply or an error, and the next sub-operation
  runs from the state the previous one left.
\<close>

fun execute_each :: "('a, 'r, 'e, 't) Accessor \<Rightarrow> (Operation \<times> path \<times> 'a) list \<Rightarrow> 't \<Rightarrow> ('e + ('r, 'e) Reply) list \<times> 't" where
  "execute_each acc [] t = ([], t)"
| "execute_each acc (x # xs) t =
     (case execute acc x t of (r, t1) \<Rightarrow>
        (case execute_each acc xs t1 of (rs, t2) \<Rightarrow> (r # rs, t2)))"

text \<open>Modelled from the spec: the Batch reply the algorithm assembles, "an ordered
  sequence of per-sub-operation outcomes" (sections 3 and 4.5; \<^verbatim>\<open>RpBatch\<close> is missing
  from the sources).\<close>

definition default_batch :: "('a, 'r, 'e, 't) Accessor \<Rightarrow> (Operation \<times> path \<times> 'a) list \<Rightarrow> 't \<Rightarrow> ('e + ('r, 'e) Reply) \<times> 't" where
  "default_batch acc xs t =
     (case execute_each acc xs t of (rs, t') \<Rightarrow> (Inr (RpBatch rs), t'))"

text \<open>
  Modelled from the spec: the accessor a layer produces over an inner accessor (section
  4.5; the trait \<^verbatim>\<open>LayeredAccessor\<close> is missing from the sources). An overridden
  operation runs its replacement. An operation that is not overridden is forwarded,
  except a Batch request: "a layer need not special-case Batch; the default forwarding
  behavior for Batch executes each sub-operation via the same accessor's own typed
  operation methods (so overrides on individual operations are automatically honored
  inside a batch)". A sub-operation carries plain arguments, and on plain arguments
  the produced accessor's own methods are \<open>dispatch L inner\<close> (lemma \<open>layered_Plain\<close>
  below), so the batch runs over the produced accessor itself (lemma \<open>layered_Batch\<close>).
\<close>

definition layered :: "('a, 'r, 'e, 'l, 's) Layer \<Rightarrow> ('a, 'r, 'e, 's) Accessor \<Rightarrow> ('a, 'r, 'e, 'l \<times> 's) Accessor" where
  "layered L inner op p args st =
     (case L op of
        Some h \<Rightarrow> h inner p args st
      | None \<Rightarrow>
          (case args of
             Subs xs \<Rightarrow>
               if op = Batch then default_batch (dispatch L inner) xs st
               else forward (inner op) p args st
           | Plain a \<Rightarrow> forward (inner op) p args st))"

subsection \<open>A memory backend and a layer for the examples\<close>

text \<open>
  Modelled from the spec: the closed set of error kinds of section 7; the error type is
  missing from the sources. \<^verbatim>\<open>Aggregate\<close> "carries an ordered list of
  per-sub-operation outcomes"; the type of an outcome is a parameter.
\<close>

datatype 'o ErrorKind =
    NotFound | AlreadyExists | PermissionDenied | InvalidArgument | Unsupported
  | BackendUnavailable | Cancelled | Aggregate "'o list"

text \<open>
  Modelled from the spec: the deterministic in-memory backend of the scenarios of
  section 8 ("Write a/b.txt with content hi, then Stat a/b.txt returns size 2; Delete
  a/b.txt; subsequent Stat returns NotFound"); no backend is among the sources. The
  state maps a path to the content written there. Write stores its argument; Read
  returns the content and Stat its size; Delete removes the entity; all three fail with
  \<open>NotFound\<close> on a path that holds nothing. The other single operations are
  \<open>Unsupported\<close>, and sub-operations where plain arguments are expected are an
  \<open>InvalidArgument\<close>. Its Batch runs the algorithm above over its own methods.
\<close>

datatype Payload = Content string | Size nat | Ack

type_synonym memory = "path \<rightharpoonup> string"

fun memory_op :: "Operation \<Rightarrow> path \<Rightarrow> string \<Rightarrow> memory \<Rightarrow> (unit ErrorKind + (Payload, unit ErrorKind) Reply) \<times> memory" where
  "memory_op Write p c m = (Inr (Rp Ack), m(p \<mapsto> c))"
| "memory_op Read p c m =
     (case m p of None \<Rightarrow> (Inl NotFound, m) | Some x \<Rightarrow> (Inr (Rp (Content x)), m))"
| "memory_op Stat p c m =
     (case m p of None \<Rightarrow> (Inl NotFound, m) | Some x \<Rightarrow> (Inr (Rp (Size (length x))), m))"
| "memory_op Delete p c m =
     (case m p of None \<Rightarrow> (Inl NotFound, m) | Some x \<Rightarrow> (Inr (Rp Ack), m(p := None)))"
| "memory_op _ p c m = (Inl Unsupported, m)"

definition memory_single :: "(string, Payload, unit ErrorKind, memory) Accessor" where
  "memory_single op p args m =
     (case args of Plain c \<Rightarrow> memory_op op p c m | Subs xs \<Rightarrow> (Inl InvalidArgument, m))"

definition memory_backend :: "(string, Payload, unit ErrorKind, memory) Accessor" where
  "memory_backend op p args m =
     (case args of
        Subs xs \<Rightarrow>
          if op = Batch then default_batch memory_single xs m else (Inl InvalidArgument, m)
      | Plain c \<Rightarrow> memory_op op p c m)"


section \<open>Properties of the index\<close>

lemma keys_SIDEBAR_ITEMS:
  "keys SIDEBAR_ITEMS = [''constant'', ''enum'', ''fn'', ''mod'', ''struct'', ''trait'', ''type'']"
  by (simp add: SIDEBAR_ITEMS_def)

lemma category_listed:
  assumes "c \<in> set [''constant'', ''enum'', ''fn'', ''mod'', ''struct'', ''trait'', ''type'']"
  shows "(\<exists>vs. property SIDEBAR_ITEMS c = Some (Arr vs)) \<and> list_all well_formed_entry (entries c)
     \<and> sorted_wrt (<) (names c)"
  using assms
  by (auto simp add: names_def entries_def SIDEBAR_ITEMS_def List.map_filter_simps
      well_formed_entry_def)

lemma names_fn_length: "length (names ''fn'') = 32"
  by (simp add: names_def entries_def SIDEBAR_ITEMS_def List.map_filter_simps)

lemma names_struct:
  "names ''struct'' =
     [''AccessorInfo'', ''BytesContentRange'', ''BytesRange'', ''ErrorResponse'', ''HttpClient'',
      ''IncomingAsyncBody'', ''PresignedRequest'', ''RpBatch'', ''RpCopy'', ''RpCreate'',
      ''RpDelete'', ''RpList'', ''RpPresign'', ''RpRead'', ''RpRename'', ''RpScan'', ''RpStat'',
      ''RpWrite'']"
  by (simp add: names_def entries_def SIDEBAR_ITEMS_def List.map_filter_simps)

lemma names_enum:
  "names ''enum'' =
     [''AccessorCapability'', ''AccessorHint'', ''AsyncBody'', ''BatchedReply'', ''Operation'']"
  by (simp add: names_def entries_def SIDEBAR_ITEMS_def List.map_filter_simps)

lemma reply_structs_listed:
  "reply_structs =
     [''RpBatch'', ''RpCopy'', ''RpCreate'', ''RpDelete'', ''RpList'', ''RpPresign'', ''RpRead'',
      ''RpRename'', ''RpScan'', ''RpStat'', ''RpWrite'']"
  by (simp add: reply_structs_def names_struct)

lemma description_RpCreate:
  "description ''struct'' ''RpCreate'' = Some ''Reply for `create` operation''"
  by (simp add: description_def entries_def SIDEBAR_ITEMS_def List.map_filter_simps)

lemma UNIV_Operation:
  "(UNIV :: Operation set) = {Read, Write, Stat, Delete, List, Scan, Copy, Rename, Presign, Batch}"
proof -
  have "x \<in> {Read, Write, Stat, Delete, List, Scan, Copy, Rename, Presign, Batch}" for x
    by (cases x) simp_all
  then show ?thesis by blast
qed

lemma range_reply_type:
  "range reply_type =
     {''RpRead'', ''RpWrite'', ''RpStat'', ''RpDelete'', ''RpList'', ''RpScan'', ''RpCopy'',
      ''RpRename'', ''RpPresign'', ''RpBatch''}"
  by (simp add: UNIV_Operation reply_type_def)

lemma inj_reply_type: "inj reply_type"
proof (rule injI)
  fix x y
  assume "reply_type x = reply_type y"
  then show "x = y"
    by (cases x; cases y; simp add: reply_type_def)
qed

lemma replied_operations_listed:
  "map replied_operation reply_structs =
     map Some [''batch'', ''copy'', ''create'', ''delete'', ''list'', ''presign'', ''read'',
               ''rename'', ''scan'', ''stat'', ''write'']"
  by (simp add: reply_structs_listed replied_operation_def description_def entries_def
      SIDEBAR_ITEMS_def List.map_filter_simps backquoted_def)

lemma replied_operation_tags:
  "replied_operation ''RpRead'' = Some ''read''"
  "replied_operation ''RpWrite'' = Some ''write''"
  "replied_operation ''RpStat'' = Some ''stat''"
  "replied_operation ''RpDelete'' = Some ''delete''"
  "replied_operation ''RpList'' = Some ''list''"
  "replied_operation ''RpScan'' = Some ''scan''"
  "replied_operation ''RpCopy'' = Some ''copy''"
  "replied_operation ''RpRename'' = Some ''rename''"
  "replied_operation ''RpPresign'' = Some ''presign''"
  "replied_operation ''RpBatch'' = Some ''batch''"
  "replied_operation ''RpCreate'' = Some ''create''"
  using replied_operations_listed by (simp_all add: reply_structs_listed)

lemma lowercase_tags:
  "lowercase ''Read'' = ''read''"
  "lowercase ''Write'' = ''write''"
  "lowercase ''Stat'' = ''stat''"
  "lowercase ''Delete'' = ''delete''"
  "lowercase ''List'' = ''list''"
  "lowercase ''Scan'' = ''scan''"
  "lowercase ''Copy'' = ''copy''"
  "lowercase ''Rename'' = ''rename''"
  "lowercase ''Presign'' = ''presign''"
  "lowercase ''Batch'' = ''batch''"
  by code_simp+

lemma range_lowercase_tag_name:
  "range (\<lambda>op. lowercase (tag_name op)) =
     {''read'', ''write'', ''stat'', ''delete'', ''list'', ''scan'', ''copy'', ''rename'',
      ''presign'', ''batch''}"
  by (simp add: UNIV_Operation lowercase_tags)

lemma replied_operation_reply_type:
  "replied_operation (reply_type op) = Some (lowercase (tag_name op))"
  by (cases op) (simp_all add: reply_type_def replied_operation_tags lowercase_tags)

text \<open>
  Claim C9. In the \<^verbatim>\<open>SIDEBAR_ITEMS\<close> record the categories are constant, enum, fn, mod,
  struct, trait and type; under each of them the value is an array, every entry of it
  is a pair of a nonempty name string and a description string, the names are pairwise
  distinct, and they are listed in strictly ascending lexicographic order (strings are
  compared byte by byte, which on these ASCII names is JavaScript's comparison).
\<close>

theorem sidebar_categories_sorted:
  "keys SIDEBAR_ITEMS = [''constant'', ''enum'', ''fn'', ''mod'', ''struct'', ''trait'', ''type'']
   \<and> (\<forall>c \<in> set (keys SIDEBAR_ITEMS).
         (\<exists>vs. property SIDEBAR_ITEMS c = Some (Arr vs))
       \<and> list_all well_formed_entry (entries c)
       \<and> length (names c) = length (entries c)
       \<and> distinct (names c)
       \<and> sorted_wrt (<) (names c))"
proof (intro conjI ballI)
  show "keys SIDEBAR_ITEMS = [''constant'', ''enum'', ''fn'', ''mod'', ''struct'', ''trait'', ''type'']"
    by (rule keys_SIDEBAR_ITEMS)
next
  fix c
  assume "c \<in> set (keys SIDEBAR_ITEMS)"
  then have c: "c \<in> set [''constant'', ''enum'', ''fn'', ''mod'', ''struct'', ''trait'', ''type'']"
    by (simp only: keys_SIDEBAR_ITEMS)
  note ok = category_listed [OF c]
  from ok show "\<exists>vs. property SIDEBAR_ITEMS c = Some (Arr vs)" by simp
  from ok show wf: "list_all well_formed_entry (entries c)" by simp
  from ok show sorted: "sorted_wrt (<) (names c)" by simp
  then show "distinct (names c)"
    using strict_sorted_iff by blast
  have "list_all well_formed_entry es \<Longrightarrow> length (List.map_filter entry_name es) = length es" for es
    by (induction es) (auto simp add: List.map_filter_simps well_formed_entry_def split: option.splits)
  with wf show "length (names c) = length (entries c)"
    by (simp add: names_def)
qed

theorem sidebar_categories_sorted_witness:
  "''fn'' \<in> set (keys SIDEBAR_ITEMS)
   \<and> list_all well_formed_entry (entries ''fn'')
   \<and> length (entries ''fn'') = 32
   \<and> distinct (names ''fn'')
   \<and> sorted_wrt (<) (names ''fn'')"
proof -
  have fn: "''fn'' \<in> set (keys SIDEBAR_ITEMS)"
    by (simp add: keys_SIDEBAR_ITEMS)
  from sidebar_categories_sorted fn
  have "list_all well_formed_entry (entries ''fn'') \<and> length (names ''fn'') = length (entries ''fn'')
      \<and> distinct (names ''fn'') \<and> sorted_wrt (<) (names ''fn'')"
    by blast
  with fn show ?thesis
    by (simp add: names_fn_length)
qed

text \<open>
  Claim C10. Evaluating the script assigns the literal to the property
  \<^verbatim>\<open>SIDEBAR_ITEMS\<close> of \<^verbatim>\<open>window\<close> and leaves every other property as it was; the value
  assigned does not depend on the window the script runs in, and evaluating the script
  a second time changes nothing.
\<close>

theorem script_assigns_only_SIDEBAR_ITEMS:
  "sidebar_items_js w ''SIDEBAR_ITEMS'' = Some SIDEBAR_ITEMS
   \<and> (\<forall>k. k \<noteq> ''SIDEBAR_ITEMS'' \<longrightarrow> sidebar_items_js w k = w k)
   \<and> sidebar_items_js w ''SIDEBAR_ITEMS'' = sidebar_items_js w' ''SIDEBAR_ITEMS''
   \<and> sidebar_items_js (sidebar_items_js w) = sidebar_items_js w"
  by (simp add: sidebar_items_js_def)

theorem script_assigns_only_SIDEBAR_ITEMS_witness:
  "''location'' \<noteq> ''SIDEBAR_ITEMS''
   \<and> sidebar_items_js [''location'' \<mapsto> Str ''raw/index.html''] ''location'' = Some (Str ''raw/index.html'')
   \<and> sidebar_items_js [''location'' \<mapsto> Str ''raw/index.html''] ''SIDEBAR_ITEMS'' = Some SIDEBAR_ITEMS
   \<and> sidebar_items_js [''location'' \<mapsto> Str ''raw/index.html''] ''SIDEBAR_ITEMS''
       = sidebar_items_js Map.empty ''SIDEBAR_ITEMS''"
proof -
  note script = script_assigns_only_SIDEBAR_ITEMS
    [of "[''location'' \<mapsto> Str ''raw/index.html'']" Map.empty]
  have other: "''location'' \<noteq> ''SIDEBAR_ITEMS''"
    by simp
  from script have frame: "\<forall>k. k \<noteq> ''SIDEBAR_ITEMS'' \<longrightarrow>
      sidebar_items_js [''location'' \<mapsto> Str ''raw/index.html''] k = [''location'' \<mapsto> Str ''raw/index.html''] k"
    by (rule conjunct1 [OF conjunct2])
  from frame [rule_format, OF other]
  have kept: "sidebar_items_js [''location'' \<mapsto> Str ''raw/index.html''] ''location''
      = Some (Str ''raw/index.html'')"
    by simp
  from script have assigned: "sidebar_items_js [''location'' \<mapsto> Str ''raw/index.html''] ''SIDEBAR_ITEMS'' = Some SIDEBAR_ITEMS"
    by (rule conjunct1)
  from script have same: "sidebar_items_js [''location'' \<mapsto> Str ''raw/index.html''] ''SIDEBAR_ITEMS''
       = sidebar_items_js Map.empty ''SIDEBAR_ITEMS''"
    by (rule conjunct1 [OF conjunct2 [OF conjunct2]])
  show ?thesis
    by (intro conjI) (rule other kept assigned same)+
qed

text \<open>
  Claim C1, as amended. The operation tags are exactly the ten of the spec, and the
  index lists the enum \<^verbatim>\<open>Operation\<close>. Each of the ten tags has its reply struct among
  the structs the module declares, and the module declares exactly one reply struct
  more, \<^verbatim>\<open>RpCreate\<close>, which is named for none of the ten tags: the operations the
  declared reply structs are described as replies for are the ten tags' operations
  and \<^verbatim>\<open>create\<close>.
\<close>

theorem reply_structs_are_tags_and_RpCreate:
  "(UNIV :: Operation set) = {Read, Write, Stat, Delete, List, Scan, Copy, Rename, Presign, Batch}
   \<and> card (UNIV :: Operation set) = 10
   \<and> ''Operation'' \<in> set (names ''enum'')
   \<and> range reply_type \<subseteq> set reply_structs
   \<and> set reply_structs - range reply_type = {''RpCreate''}
   \<and> map replied_operation reply_structs =
       map Some [''batch'', ''copy'', ''create'', ''delete'', ''list'', ''presign'', ''read'',
                 ''rename'', ''scan'', ''stat'', ''write'']
   \<and> set (map replied_operation reply_structs) - Some ` range (\<lambda>op. lowercase (tag_name op))
       = {Some ''create''}"
proof (intro conjI)
  show "(UNIV :: Operation set) = {Read, Write, Stat, Delete, List, Scan, Copy, Rename, Presign, Batch}"
    by (rule UNIV_Operation)
  show "card (UNIV :: Operation set) = 10"
    by (simp add: UNIV_Operation)
  show "''Operation'' \<in> set (names ''enum'')"
    by (simp add: names_enum)
  show "range reply_type \<subseteq> set reply_structs"
    by (simp add: range_reply_type reply_structs_listed)
  show "set reply_structs - range reply_type = {''RpCreate''}"
    by (auto simp add: range_reply_type reply_structs_listed)
  show "map replied_operation reply_structs =
       map Some [''batch'', ''copy'', ''create'', ''delete'', ''list'', ''presign'', ''read'',
                 ''rename'', ''scan'', ''stat'', ''write'']"
    by (rule replied_operations_listed)
  show "set (map replied_operation reply_structs) - Some ` range (\<lambda>op. lowercase (tag_name op))
       = {Some ''create''}"
    by (auto simp add: replied_operations_listed range_lowercase_tag_name)
qed

text \<open>The claim as stated fails: \<^verbatim>\<open>RpCreate\<close>, the "Reply for `create` operation", is a
  reply struct of the module and the reply type of none of the ten tags.\<close>

theorem RpCreate_has_no_tag:
  "''RpCreate'' \<in> set reply_structs
   \<and> description ''struct'' ''RpCreate'' = Some ''Reply for `create` operation''
   \<and> replied_operation ''RpCreate'' = Some ''create''
   \<and> ''create'' \<notin> range (\<lambda>op. lowercase (tag_name op))
   \<and> ''RpCreate'' \<notin> range reply_type"
  by (simp add: reply_structs_listed description_RpCreate range_reply_type
      replied_operation_tags range_lowercase_tag_name)

text \<open>
  Claim C2, as amended. Each operation tag has exactly one reply struct, named for it
  and described by the index as the reply for that operation, and no two tags share
  one: the pairing is a bijection between the ten tags and the declared structs whose
  name begins with \<^verbatim>\<open>Rp\<close> other than \<^verbatim>\<open>RpCreate\<close>. The module declares eleven such
  structs, pairwise distinct, \<^verbatim>\<open>RpCreate\<close> among them.
\<close>

theorem reply_type_bijection_without_RpCreate:
  "bij_betw reply_type UNIV (set reply_structs - {''RpCreate''})
   \<and> (\<forall>op. replied_operation (reply_type op) = Some (lowercase (tag_name op)))
   \<and> ''RpCreate'' \<in> set reply_structs
   \<and> distinct reply_structs
   \<and> length reply_structs = 11"
proof (intro conjI allI)
  have "range reply_type = set reply_structs - {''RpCreate''}"
    by (auto simp add: range_reply_type reply_structs_listed)
  with inj_reply_type show "bij_betw reply_type UNIV (set reply_structs - {''RpCreate''})"
    by (simp add: bij_betw_def)
  show "replied_operation (reply_type op) = Some (lowercase (tag_name op))" for op
    by (rule replied_operation_reply_type)
  show "''RpCreate'' \<in> set reply_structs"
    by (simp add: reply_structs_listed)
  show "distinct reply_structs"
    by (simp add: reply_structs_listed)
  show "length reply_structs = 11"
    by (simp add: reply_structs_listed)
qed

text \<open>The claim as stated fails: the pairing is not onto the declared reply structs.\<close>

theorem reply_type_not_bijective:
  "\<not> bij_betw reply_type UNIV (set reply_structs)"
proof
  assume "bij_betw reply_type UNIV (set reply_structs)"
  then have "range reply_type = set reply_structs"
    by (simp add: bij_betw_def)
  moreover have "''RpCreate'' \<in> set reply_structs"
    by (simp add: reply_structs_listed)
  ultimately have "''RpCreate'' \<in> range reply_type"
    by simp
  then show False
    by (simp add: range_reply_type)
qed

section \<open>Properties of the accessor and layer protocol\<close>

subsection \<open>Capability merge\<close>

lemma merge_assoc: "merge a (merge b c) = merge (merge a b) c"
  by (rule ext) (simp add: merge_def split: option.splits)

lemma merge_empty: "merge Map.empty d = d"
  by (simp add: merge_def)

lemma chain_capability_merge_all:
  "chain_capability layers backend = merge (merge_all layers) backend"
  by (induction layers) (simp_all add: merge_empty merge_assoc)

text \<open>
  Claim C5. The merge of capability descriptors is associative. For an operation the
  layer implements, the layer's own declared support is the merged descriptor's
  answer, for the operation and for each of its variants; for an operation the layer
  does not implement, the inner accessor's support is inherited unchanged. For any
  chain of layers over a backend, merging the layers' declarations all at once and
  then over the backend gives the descriptor that merging one layer at a time gives.
\<close>

theorem merge_policy_associative:
  "merge a (merge b c) = merge (merge a b) c
   \<and> merge outer inner op = (if op \<in> dom outer then outer op else inner op)
   \<and> supports (merge outer inner) op =
       (if op \<in> dom outer then supports outer op else supports inner op)
   \<and> variant_supported (merge outer inner) op v =
       (if op \<in> dom outer then variant_supported outer op v else variant_supported inner op v)
   \<and> chain_capability layers backend = merge (merge_all layers) backend"
proof (intro conjI)
  show "merge a (merge b c) = merge (merge a b) c"
    by (rule merge_assoc)
  show "merge outer inner op = (if op \<in> dom outer then outer op else inner op)"
    by (auto simp add: merge_def dom_def split: option.splits)
  show "supports (merge outer inner) op =
       (if op \<in> dom outer then supports outer op else supports inner op)"
    by (auto simp add: supports_def merge_def dom_def split: option.splits)
  show "variant_supported (merge outer inner) op v =
       (if op \<in> dom outer then variant_supported outer op v else variant_supported inner op v)"
    by (auto simp add: variant_supported_def merge_def dom_def split: option.splits)
  show "chain_capability layers backend = merge (merge_all layers) backend"
    by (rule chain_capability_merge_all)
qed

subsection \<open>The Batch algorithm\<close>

lemma execute_each_Cons:
  "execute_each acc (x # xs) t =
     (fst (execute acc x t) # fst (execute_each acc xs (snd (execute acc x t))),
      snd (execute_each acc xs (snd (execute acc x t))))"
  by (simp add: case_prod_beta del: execute.simps)

lemma length_execute_each: "length (fst (execute_each acc xs t)) = length xs"
  by (induction xs arbitrary: t) (simp_all add: execute_each_Cons del: execute_each.simps(2))

lemma execute_each_snoc:
  "execute_each acc (xs @ [x]) t =
     (fst (execute_each acc xs t) @ [fst (execute acc x (snd (execute_each acc xs t)))],
      snd (execute acc x (snd (execute_each acc xs t))))"
  by (induction xs arbitrary: t) (simp_all add: case_prod_beta del: execute.simps)

lemma execute_each_nth:
  "i < length xs \<Longrightarrow>
     fst (execute_each acc xs t) ! i =
       fst (execute acc (xs ! i) (snd (execute_each acc (take i xs) t)))"
proof (induction xs arbitrary: t i)
  case Nil
  then show ?case by simp
next
  case (Cons x xs)
  show ?case
  proof (cases i)
    case 0
    then show ?thesis
      by (simp add: execute_each_Cons del: execute_each.simps(2) execute.simps)
  next
    case (Suc j)
    with Cons.prems have j: "j < length xs" by simp
    show ?thesis
      using Cons.IH [OF j, of "snd (execute acc x t)"] Suc
      by (simp add: execute_each_Cons del: execute_each.simps(2) execute.simps)
  qed
qed

lemma execute_each_state:
  "i < length xs \<Longrightarrow>
     snd (execute_each acc (take (Suc i) xs) t) =
       snd (execute acc (xs ! i) (snd (execute_each acc (take i xs) t)))"
  by (simp add: take_Suc_conv_app_nth execute_each_snoc del: execute.simps)

text \<open>
  Claim C6. For a batch request of n sub-operations the Batch algorithm replies with
  an ordered sequence of exactly n outcomes. The outcome at position i is the outcome
  of the i-th sub-operation, executed through the accessor's own method from the
  state the sub-operations before it left, whether those failed or not: every
  sub-operation is executed, in order, and a failure is recorded at its own position.
\<close>

theorem batch_order_and_partial_failure:
  "\<exists>rs. default_batch acc xs t = (Inr (RpBatch rs), snd (execute_each acc xs t))
      \<and> length rs = length xs
      \<and> (\<forall>i < length xs.
            rs ! i = fst (execute acc (xs ! i) (snd (execute_each acc (take i xs) t)))
          \<and> snd (execute_each acc (take (Suc i) xs) t)
              = snd (execute acc (xs ! i) (snd (execute_each acc (take i xs) t))))"
proof (intro conjI exI impI allI)
  show "default_batch acc xs t =
      (Inr (RpBatch (fst (execute_each acc xs t))), snd (execute_each acc xs t))"
    by (simp add: default_batch_def case_prod_beta)
  show "length (fst (execute_each acc xs t)) = length xs"
    by (rule length_execute_each)
  show "fst (execute_each acc xs t) ! i =
      fst (execute acc (xs ! i) (snd (execute_each acc (take i xs) t)))"
    if "i < length xs" for i
    using that by (rule execute_each_nth)
  show "snd (execute_each acc (take (Suc i) xs) t) =
      snd (execute acc (xs ! i) (snd (execute_each acc (take i xs) t)))"
    if "i < length xs" for i
    using that by (rule execute_each_state)
qed

text \<open>The batch of five sub-operations of the spec's test, the third of which fails, on
  the memory backend: the reply has five outcomes, the failure stands at the third
  position, and the fourth and fifth sub-operations are executed (the fifth reads what
  the fourth wrote).\<close>

theorem batch_order_and_partial_failure_witness:
  "\<exists>rs. default_batch memory_backend
          [(Write, ''a/b.txt'', ''hi''), (Stat, ''a/b.txt'', ''''), (Delete, ''c'', ''''),
           (Write, ''d'', ''x''), (Read, ''d'', '''')] Map.empty
        = (Inr (RpBatch rs),
           snd (execute_each memory_backend
             [(Write, ''a/b.txt'', ''hi''), (Stat, ''a/b.txt'', ''''), (Delete, ''c'', ''''),
              (Write, ''d'', ''x''), (Read, ''d'', '''')] Map.empty))
      \<and> length rs = 5
      \<and> rs ! 0 = Inr (Rp Ack)
      \<and> rs ! 1 = Inr (Rp (Size 2))
      \<and> rs ! 2 = Inl NotFound
      \<and> rs ! 3 = Inr (Rp Ack)
      \<and> rs ! 4 = Inr (Rp (Content ''x''))"
proof -
  let ?xs = "[(Write, ''a/b.txt'', ''hi''), (Stat, ''a/b.txt'', ''''), (Delete, ''c'', ''''),
       (Write, ''d'', ''x''), (Read, ''d'', '''')]"
  from batch_order_and_partial_failure [of memory_backend ?xs Map.empty]
  obtain rs where
    reply: "default_batch memory_backend ?xs Map.empty
        = (Inr (RpBatch rs), snd (execute_each memory_backend ?xs Map.empty))"
    and len: "length rs = length ?xs"
    and nth: "\<forall>i < length ?xs. rs ! i =
        fst (execute memory_backend (?xs ! i)
          (snd (execute_each memory_backend (take i ?xs) Map.empty)))"
    by blast
  have five: "length rs = 5"
    using len by simp
  have "(0::nat) < length ?xs" "(1::nat) < length ?xs" "(2::nat) < length ?xs"
    "(3::nat) < length ?xs" "(4::nat) < length ?xs"
    by simp_all
  with nth have
    "rs ! 0 = fst (execute memory_backend (?xs ! 0)
        (snd (execute_each memory_backend (take 0 ?xs) Map.empty)))"
    "rs ! 1 = fst (execute memory_backend (?xs ! 1)
        (snd (execute_each memory_backend (take 1 ?xs) Map.empty)))"
    "rs ! 2 = fst (execute memory_backend (?xs ! 2)
        (snd (execute_each memory_backend (take 2 ?xs) Map.empty)))"
    "rs ! 3 = fst (execute memory_backend (?xs ! 3)
        (snd (execute_each memory_backend (take 3 ?xs) Map.empty)))"
    "rs ! 4 = fst (execute memory_backend (?xs ! 4)
        (snd (execute_each memory_backend (take 4 ?xs) Map.empty)))"
    by blast+
  then have outcomes: "rs ! 0 = Inr (Rp Ack)" "rs ! 1 = Inr (Rp (Size 2))"
    "rs ! 2 = Inl NotFound" "rs ! 3 = Inr (Rp Ack)" "rs ! 4 = Inr (Rp (Content ''x''))"
    by (simp_all add: memory_backend_def)
  with reply five show ?thesis
    by blast
qed

subsection \<open>Forwarding\<close>










end
